theory Spec2Isabelle
  imports Main
begin

section \<open>compat.h: declarations traditionally provided by the system\<close>

text \<open>
  The header is made of preprocessor directives and one declaration. A directive acts on
  the translation unit that includes the header, so the header is modelled as a function
  from the state of that translation unit to the state after the inclusion: each
  \<^verbatim>\<open>#define\<close> updates the table of macros, each \<^verbatim>\<open>#ifndef ... #endif\<close> runs its
  group only when the name is not a macro, and the \<^verbatim>\<open>typedef\<close> line is passed on as
  text.
\<close>

subsection \<open>The state of a translation unit\<close>

text \<open>
  A preprocessing token is kept as its spelling. A macro is object-like (a replacement
  list) or function-like (parameter names and a replacement list).
\<close>

type_synonym token = string

datatype macro =
    Object_like "token list"
  | Function_like "string list" "token list"

text \<open>
  \<open>macros\<close> is the table of the macros currently defined; \<open>text_lines\<close> holds the
  text lines (the lines that are not directives) met so far, in order and as written;
  \<open>redefined\<close> lists the names that a \<^verbatim>\<open>#define\<close> gave a replacement different from
  the one they had, which is what a compiler reports as a redefinition.
\<close>

record tu_state =
  macros :: "string \<rightharpoonup> macro"
  text_lines :: "token list list"
  redefined :: "string list"

subsection \<open>Directives\<close>

text \<open>
  \<^verbatim>\<open>#define n ...\<close>: the name is bound to the new macro. Defining a name again with
  the same macro is allowed and silent; defining it with another one is recorded, and the
  later definition is the one in effect.
\<close>

definition cpp_define :: "string \<Rightarrow> macro \<Rightarrow> tu_state \<Rightarrow> tu_state" where
  "cpp_define n m s =
     s\<lparr>macros := (macros s)(n \<mapsto> m),
       redefined := (case macros s n of
                       None \<Rightarrow> redefined s
                     | Some m' \<Rightarrow> if m' = m then redefined s else redefined s @ [n])\<rparr>"

text \<open>\<^verbatim>\<open>#ifndef n ... #endif\<close>: the group is processed only when \<open>n\<close> is not a macro.\<close>

definition cpp_ifndef :: "string \<Rightarrow> (tu_state \<Rightarrow> tu_state) \<Rightarrow> tu_state \<Rightarrow> tu_state" where
  "cpp_ifndef n body s = (case macros s n of None \<Rightarrow> body s | Some m \<Rightarrow> s)"

text \<open>
  A line that is not a directive goes to the text of the translation unit. It is kept as
  written, which is the line the compiler sees where none of its tokens names a macro.
\<close>

definition text_line :: "token list \<Rightarrow> tu_state \<Rightarrow> tu_state" where
  "text_line ts s = s\<lparr>text_lines := text_lines s @ [ts]\<rparr>"

text \<open>The lines of a group are processed from the first to the last.\<close>

definition block :: "(tu_state \<Rightarrow> tu_state) list \<Rightarrow> tu_state \<Rightarrow> tu_state" where
  "block ds s = fold (\<lambda>d. d) ds s"

subsection \<open>The header\<close>

text \<open>
  \<^verbatim>\<open>
  #ifndef COMPAT_H
  #define COMPAT_H

  #define MILLISEC      1000

  #define PATH_MAX      1024

  #define EXIT_SUCCESS  0
  #define EXIT_FAILURE  1
  #define EXIT_USAGE    2

  typedef enum { B_FALSE, B_TRUE } boolean_t;

  /* Older versions of libpng didn't define png_jmpbuf. */
  #ifndef png_jmpbuf
  #define png_jmpbuf(png_ptr) ((png_ptr)->jmpbuf)
  #endif

  #endif
  \<close>
\<close>

definition png_jmpbuf_fallback :: macro where
  "png_jmpbuf_fallback =
     Function_like [''png_ptr''] [''('', ''('', ''png_ptr'', '')'', ''->'', ''jmpbuf'', '')'']"

definition boolean_t_typedef :: "token list" where
  "boolean_t_typedef =
     [''typedef'', ''enum'', ''{'', ''B_FALSE'', '','', ''B_TRUE'', ''}'', ''boolean_t'', '';'']"

definition compat_h :: "tu_state \<Rightarrow> tu_state" where
  "compat_h =
     cpp_ifndef ''COMPAT_H'' (block
       [cpp_define ''COMPAT_H'' (Object_like []),
        cpp_define ''MILLISEC'' (Object_like [''1000'']),
        cpp_define ''PATH_MAX'' (Object_like [''1024'']),
        cpp_define ''EXIT_SUCCESS'' (Object_like [''0'']),
        cpp_define ''EXIT_FAILURE'' (Object_like [''1'']),
        cpp_define ''EXIT_USAGE'' (Object_like [''2'']),
        text_line boolean_t_typedef,
        cpp_ifndef ''png_jmpbuf'' (block
          [cpp_define ''png_jmpbuf'' png_jmpbuf_fallback])])"


subsection \<open>Macro replacement\<close>

text \<open>
  The use of an object-like macro is replaced by its replacement list. The call of a
  function-like macro is replaced by its replacement list in which every parameter stands
  for the tokens of the matching argument; a call with the wrong number of arguments is
  not a replacement. Arguments are taken as already replaced. The result is not scanned
  again for more macro names, so it is the final replacement only where no identifier
  that the replacement list adds (for \<^verbatim>\<open>png_jmpbuf\<close>, the name \<^verbatim>\<open>jmpbuf\<close>) is
  itself a macro; a replacement list that is one number needs no such condition.
\<close>

primrec subst_params :: "(string \<times> token list) list \<Rightarrow> token list \<Rightarrow> token list" where
  "subst_params bs [] = []"
| "subst_params bs (t # ts) =
     (case map_of bs t of None \<Rightarrow> [t] | Some a \<Rightarrow> a) @ subst_params bs ts"

definition expand_object :: "tu_state \<Rightarrow> string \<Rightarrow> token list option" where
  "expand_object s n =
     (case macros s n of
        Some (Object_like body) \<Rightarrow> Some body
      | _ \<Rightarrow> None)"

definition expand_call :: "tu_state \<Rightarrow> string \<Rightarrow> token list list \<Rightarrow> token list option" where
  "expand_call s n args =
     (case macros s n of
        Some (Function_like ps body) \<Rightarrow>
          if length args = length ps then Some (subst_params (zip ps args) body) else None
      | _ \<Rightarrow> None)"

subsection \<open>Integer constants\<close>

text \<open>
  The value of a token that is a decimal constant. The single digit \<^verbatim>\<open>0\<close> has the value
  zero; longer constants that start with \<^verbatim>\<open>0\<close>, and constants with a suffix, do not
  occur in the header and have no value here.
\<close>

definition digit_of :: "char \<Rightarrow> nat option" where
  "digit_of c =
     (let n = (of_char c :: nat) in if 48 \<le> n \<and> n \<le> 57 then Some (n - 48) else None)"

primrec decimal_digits :: "string \<Rightarrow> int \<Rightarrow> int option" where
  "decimal_digits [] acc = Some acc"
| "decimal_digits (c # cs) acc =
     (case digit_of c of
        None \<Rightarrow> None
      | Some d \<Rightarrow> decimal_digits cs (10 * acc + int d))"

definition integer_constant :: "token \<Rightarrow> int option" where
  "integer_constant t =
     (case t of
        [] \<Rightarrow> None
      | c # cs \<Rightarrow> if c = CHR ''0'' \<and> cs \<noteq> [] then None else decimal_digits t 0)"

text \<open>The number an object-like macro stands for: its replacement list is one constant.\<close>

definition macro_value :: "tu_state \<Rightarrow> string \<Rightarrow> int option" where
  "macro_value s n =
     (case expand_object s n of
        Some [t] \<Rightarrow> integer_constant t
      | _ \<Rightarrow> None)"

subsection \<open>The boolean type\<close>

text \<open>
  \<^verbatim>\<open>typedef enum { B_FALSE, B_TRUE } boolean_t;\<close>

  The datatype lists the enumeration constants that the declaration introduces, in its
  order. They are not all the values of the type: see \<open>boolean_t_holds\<close> below.
\<close>

datatype boolean_t = B_FALSE | B_TRUE

text \<open>How the declaration spells each of them.\<close>

primrec enumerator_name :: "boolean_t \<Rightarrow> string" where
  "enumerator_name B_FALSE = ''B_FALSE''"
| "enumerator_name B_TRUE = ''B_TRUE''"

text \<open>
  The enumerators of a declaration \<^verbatim>\<open>typedef enum { A, B, ... } name;\<close> in which no
  enumerator is given a value: the identifiers between the braces.
\<close>

definition enumerator_names :: "token list \<Rightarrow> string list" where
  "enumerator_names ts =
     filter (\<lambda>t. t \<noteq> '','')
       (takeWhile (\<lambda>t. t \<noteq> ''}'') (drop 1 (dropWhile (\<lambda>t. t \<noteq> ''{'') ts)))"

text \<open>
  An enumerator without an explicit value has the value 0 when it is the first of the
  list, and one more than the enumerator before it otherwise: its value is its position
  in the list.
\<close>

primrec enum_value :: "'a list \<Rightarrow> 'a \<Rightarrow> int" where
  "enum_value [] x = 0"
| "enum_value (e # es) x = (if x = e then 0 else 1 + enum_value es x)"

definition int_of_boolean_t :: "boolean_t \<Rightarrow> int" where
  "int_of_boolean_t = enum_value [B_FALSE, B_TRUE]"

text \<open>A scalar counts as true when it compares unequal to 0.\<close>

definition truth_value :: "int \<Rightarrow> bool" where
  "truth_value v = (v \<noteq> 0)"

definition bool_of_boolean_t :: "boolean_t \<Rightarrow> bool" where
  "bool_of_boolean_t b = truth_value (int_of_boolean_t b)"

text \<open>
  An object of type \<open>boolean_t\<close> holds an integer. An enumerated type is compatible with
  \<^verbatim>\<open>char\<close> or with a signed or unsigned integer type; the implementation chooses
  which. Every such type represents the integers from 0 to 127, so an object of type
  \<open>boolean_t\<close> can hold each of them whatever the choice is, for instance after
  \<^verbatim>\<open>boolean_t b = (boolean_t)2;\<close>.
\<close>

definition boolean_t_holds :: "int \<Rightarrow> bool" where
  "boolean_t_holds v = (0 \<le> v \<and> v \<le> 127)"

subsection \<open>Evaluation at run time\<close>










subsection \<open>Some translation units\<close>

text \<open>Nothing defined yet.\<close>

definition tu_empty :: tu_state where
  "tu_empty = \<lparr>macros = Map.empty, text_lines = [], redefined = []\<rparr>"

text \<open>
  A translation unit in which a system header has set \<^verbatim>\<open>PATH_MAX\<close> to 4096 and
  \<^verbatim>\<open>EXIT_SUCCESS\<close>, \<^verbatim>\<open>EXIT_FAILURE\<close> to 0 and 1.
\<close>

definition tu_system :: tu_state where
  "tu_system =
     \<lparr>macros = [''PATH_MAX'' \<mapsto> Object_like [''4096''],
                 ''EXIT_SUCCESS'' \<mapsto> Object_like [''0''],
                 ''EXIT_FAILURE'' \<mapsto> Object_like [''1'']],
      text_lines = [],
      redefined = []\<rparr>"

text \<open>
  A translation unit that has included an image library whose header defines the
  accessor itself, as a call of a library function.
\<close>

definition library_png_jmpbuf :: macro where
  "library_png_jmpbuf =
     Function_like [''png_ptr'']
       [''('', ''*'', ''png_set_longjmp_fn'', ''('', ''('', ''png_ptr'', '')'', '','',
        ''longjmp'', '','', ''('', ''sizeof'', ''('', ''jmp_buf'', '')'', '')'', '')'', '')'']"

definition tu_library :: tu_state where
  "tu_library =
     \<lparr>macros = [''png_jmpbuf'' \<mapsto> library_png_jmpbuf], text_lines = [], redefined = []\<rparr>"

subsection \<open>Some program states\<close>



section \<open>What an inclusion does\<close>

text \<open>With the guard already defined, the inclusion does nothing.\<close>

lemma compat_h_guarded:
  "macros s ''COMPAT_H'' = Some g \<Longrightarrow> compat_h s = s"
  by (simp add: compat_h_def cpp_ifndef_def)

text \<open>With the guard not defined, the table after the inclusion is the following.\<close>

lemma compat_h_macros:
  assumes "macros s ''COMPAT_H'' = None"
  shows "macros (compat_h s) =
    (let t = (macros s)
               (''COMPAT_H'' \<mapsto> Object_like [],
                ''MILLISEC'' \<mapsto> Object_like [''1000''],
                ''PATH_MAX'' \<mapsto> Object_like [''1024''],
                ''EXIT_SUCCESS'' \<mapsto> Object_like [''0''],
                ''EXIT_FAILURE'' \<mapsto> Object_like [''1''],
                ''EXIT_USAGE'' \<mapsto> Object_like [''2''])
     in case macros s ''png_jmpbuf'' of
          None \<Rightarrow> t(''png_jmpbuf'' \<mapsto> png_jmpbuf_fallback)
        | Some m \<Rightarrow> t)"
  using assms
  by (simp add: compat_h_def cpp_ifndef_def block_def cpp_define_def text_line_def Let_def
        split: option.split)

lemma compat_h_text_lines:
  assumes "macros s ''COMPAT_H'' = None"
  shows "text_lines (compat_h s) = text_lines s @ [boolean_t_typedef]"
  using assms
  by (simp add: compat_h_def cpp_ifndef_def block_def cpp_define_def text_line_def
        split: option.split)

text \<open>After an inclusion the guard is defined, whatever the state before.\<close>

lemma compat_h_defines_guard:
  "macros (compat_h s) ''COMPAT_H'' \<noteq> None"
proof (cases "macros s ''COMPAT_H''")
  case None
  then show ?thesis
    by (simp add: compat_h_macros Let_def split: option.split)
next
  case (Some g)
  then show ?thesis
    by (simp add: compat_h_guarded)
qed

lemma compat_h_twice:
  "compat_h (compat_h s) = compat_h s"
proof -
  obtain g where "macros (compat_h s) ''COMPAT_H'' = Some g"
    using compat_h_defines_guard [of s] by blast
  then show ?thesis
    by (rule compat_h_guarded)
qed

lemma integer_constant_simps:
  "integer_constant ''0'' = Some 0"
  "integer_constant ''1'' = Some 1"
  "integer_constant ''2'' = Some 2"
  "integer_constant ''1000'' = Some 1000"
  "integer_constant ''1024'' = Some 1024"
  by (simp_all add: integer_constant_def digit_of_def)

lemma macro_values_after_include:
  assumes "macros s ''COMPAT_H'' = None"
  shows "macro_value (compat_h s) ''MILLISEC'' = Some 1000"
    and "macro_value (compat_h s) ''PATH_MAX'' = Some 1024"
    and "macro_value (compat_h s) ''EXIT_SUCCESS'' = Some 0"
    and "macro_value (compat_h s) ''EXIT_FAILURE'' = Some 1"
    and "macro_value (compat_h s) ''EXIT_USAGE'' = Some 2"
  using assms
  by (simp_all add: compat_h_macros macro_value_def expand_object_def integer_constant_simps
        Let_def split: option.split)

text \<open>The inclusion leaves every name alone that the header does not define.\<close>

lemma compat_h_other_names:
  assumes "macros s ''COMPAT_H'' = None"
    and "n \<notin> {''COMPAT_H'', ''MILLISEC'', ''PATH_MAX'', ''EXIT_SUCCESS'', ''EXIT_FAILURE'',
               ''EXIT_USAGE'', ''png_jmpbuf''}"
  shows "macros (compat_h s) n = macros s n"
  using assms by (simp add: compat_h_macros Let_def split: option.split)

text \<open>The replacement of a call of the fallback, as tokens and as the expression it spells.\<close>

lemma fallback_call_tokens:
  assumes "macros s ''COMPAT_H'' = None" and "macros s ''png_jmpbuf'' = None"
  shows "expand_call (compat_h s) ''png_jmpbuf'' [a]
         = Some ([''('', ''(''] @ a @ ['')'', ''->'', ''jmpbuf'', '')''])"
  using assms
  by (simp add: compat_h_macros expand_call_def png_jmpbuf_fallback_def Let_def)




section \<open>The claims\<close>

text \<open>
  Claim C1. In a translation unit that has not included the header before, after the
  inclusion \<^verbatim>\<open>EXIT_SUCCESS\<close> stands for 0, \<^verbatim>\<open>EXIT_FAILURE\<close> for 1 and
  \<^verbatim>\<open>EXIT_USAGE\<close> for 2.
\<close>

theorem exit_status_values:
  assumes "macros s ''COMPAT_H'' = None"
  shows "macro_value (compat_h s) ''EXIT_SUCCESS'' = Some 0
       \<and> macro_value (compat_h s) ''EXIT_FAILURE'' = Some 1
       \<and> macro_value (compat_h s) ''EXIT_USAGE'' = Some 2"
  using assms by (simp add: macro_values_after_include)

theorem exit_status_values_witness:
  "macros tu_empty ''COMPAT_H'' = None
   \<and> macro_value (compat_h tu_empty) ''EXIT_SUCCESS'' = Some 0
   \<and> macro_value (compat_h tu_empty) ''EXIT_FAILURE'' = Some 1
   \<and> macro_value (compat_h tu_empty) ''EXIT_USAGE'' = Some 2"
proof -
  have g: "macros tu_empty ''COMPAT_H'' = None"
    by (simp add: tu_empty_def)
  show ?thesis
    using g exit_status_values [OF g] by simp
qed

text \<open>
  Claim C2. Where the guard and \<^verbatim>\<open>png_jmpbuf\<close> are not defined before the inclusion, and
  \<^verbatim>\<open>jmpbuf\<close> is not a macro, the call \<^verbatim>\<open>png_jmpbuf(a)\<close> is replaced, for every
  argument \<open>a\<close>, by the access to the field \<^verbatim>\<open>jmpbuf\<close> through the argument in
  parentheses, \<^verbatim>\<open>(a)->jmpbuf\<close>; the replacement list encloses that access in a pair of
  grouping parentheses, which are part of the result. After the inclusion \<^verbatim>\<open>jmpbuf\<close>
  still is not a macro, so no identifier that the replacement list adds is replaced
  further.
\<close>

theorem png_jmpbuf_fallback_expansion:
  assumes "macros s ''COMPAT_H'' = None" and "macros s ''png_jmpbuf'' = None"
    and "macros s ''jmpbuf'' = None"
  shows "expand_call (compat_h s) ''png_jmpbuf'' [a]
           = Some ([''('', ''(''] @ a @ ['')'', ''->'', ''jmpbuf'', '')''])
       \<and> macros (compat_h s) ''jmpbuf'' = None"
  using assms by (simp add: fallback_call_tokens compat_h_other_names)

theorem png_jmpbuf_fallback_expansion_witness:
  "macros tu_system ''COMPAT_H'' = None \<and> macros tu_system ''png_jmpbuf'' = None
   \<and> macros tu_system ''jmpbuf'' = None
   \<and> expand_call (compat_h tu_system) ''png_jmpbuf'' [[''png'']]
       = Some [''('', ''('', ''png'', '')'', ''->'', ''jmpbuf'', '')'']"
proof -
  have g: "macros tu_system ''COMPAT_H'' = None" and p: "macros tu_system ''png_jmpbuf'' = None"
    and j: "macros tu_system ''jmpbuf'' = None"
    by (simp_all add: tu_system_def)
  show ?thesis
    using g p j png_jmpbuf_fallback_expansion [OF g p j, of "[''png'']"] by simp
qed

text \<open>
  Claim C3. What \<^verbatim>\<open>png_jmpbuf\<close> is after the inclusion: a definition that exists before
  is the one in effect afterwards, unchanged; the fallback is installed only where the name
  was not defined (and the header had not been included yet).
\<close>

theorem png_jmpbuf_after_include:
  "macros (compat_h s) ''png_jmpbuf'' =
     (case macros s ''png_jmpbuf'' of
        Some m \<Rightarrow> Some m
      | None \<Rightarrow> (case macros s ''COMPAT_H'' of
                   None \<Rightarrow> Some png_jmpbuf_fallback
                 | Some g \<Rightarrow> None))"
  by (cases "macros s ''COMPAT_H''")
     (simp_all add: compat_h_macros compat_h_guarded Let_def split: option.split)

theorem png_jmpbuf_after_include_witness:
  "macros (compat_h tu_library) ''png_jmpbuf'' = Some library_png_jmpbuf
   \<and> macros (compat_h tu_empty) ''png_jmpbuf'' = Some png_jmpbuf_fallback
   \<and> library_png_jmpbuf \<noteq> png_jmpbuf_fallback"
  using png_jmpbuf_after_include [of tu_library] png_jmpbuf_after_include [of tu_empty]
  by (simp add: tu_library_def tu_empty_def library_png_jmpbuf_def png_jmpbuf_fallback_def)

text \<open>
  Claim C4, as the code has it. The declaration introduces exactly two enumeration
  constants, \<open>B_FALSE\<close> and \<open>B_TRUE\<close>, with different values that the type holds; read as
  truth values, \<open>B_FALSE\<close> is false and \<open>B_TRUE\<close> is true, and that reading is a
  bijection between the two constants and the booleans. Every integer other than the value
  of \<open>B_FALSE\<close> counts as true.
\<close>

theorem boolean_t_enumerators:
  "enumerator_names boolean_t_typedef = map enumerator_name [B_FALSE, B_TRUE]
   \<and> (UNIV :: boolean_t set) = {B_FALSE, B_TRUE}
   \<and> int_of_boolean_t B_FALSE \<noteq> int_of_boolean_t B_TRUE
   \<and> boolean_t_holds (int_of_boolean_t B_FALSE)
   \<and> boolean_t_holds (int_of_boolean_t B_TRUE)
   \<and> bij bool_of_boolean_t
   \<and> bool_of_boolean_t B_FALSE = False
   \<and> bool_of_boolean_t B_TRUE = True
   \<and> (\<forall>v. truth_value v = (v \<noteq> int_of_boolean_t B_FALSE))"
proof -
  have n: "enumerator_names boolean_t_typedef = map enumerator_name [B_FALSE, B_TRUE]"
    by (simp add: enumerator_names_def boolean_t_typedef_def)
  have u: "(UNIV :: boolean_t set) = {B_FALSE, B_TRUE}"
    using boolean_t.exhaust by auto
  have i: "int_of_boolean_t B_FALSE = 0" "int_of_boolean_t B_TRUE = 1"
    by (simp_all add: int_of_boolean_t_def)
  have f: "bool_of_boolean_t B_FALSE = False" and t: "bool_of_boolean_t B_TRUE = True"
    by (simp_all add: bool_of_boolean_t_def i truth_value_def)
  have "inj bool_of_boolean_t"
  proof (rule injI)
    fix x y
    assume "bool_of_boolean_t x = bool_of_boolean_t y"
    then show "x = y"
      using f t by (cases x; cases y) simp_all
  qed
  moreover have "surj bool_of_boolean_t"
  proof (rule surjI)
    fix b
    show "bool_of_boolean_t (if b then B_TRUE else B_FALSE) = b"
      using f t by simp
  qed
  ultimately have b: "bij bool_of_boolean_t"
    by (simp add: bij_def)
  show ?thesis
    using n u b f t by (simp add: i boolean_t_holds_def truth_value_def)
qed

theorem boolean_t_enumerators_witness:
  "enumerator_names boolean_t_typedef = [''B_FALSE'', ''B_TRUE'']
   \<and> inv bool_of_boolean_t True = B_TRUE
   \<and> truth_value 2"
proof -
  have n: "enumerator_names boolean_t_typedef = map enumerator_name [B_FALSE, B_TRUE]"
    and b: "bij bool_of_boolean_t" and t: "bool_of_boolean_t B_TRUE = True"
    and d: "int_of_boolean_t B_FALSE \<noteq> int_of_boolean_t B_TRUE"
    and v: "\<forall>v. truth_value v = (v \<noteq> int_of_boolean_t B_FALSE)"
    using boolean_t_enumerators by simp_all
  have i: "inv bool_of_boolean_t (bool_of_boolean_t B_TRUE) = B_TRUE"
    using b by (simp add: bij_is_inj)
  have "truth_value 2 = (2 \<noteq> int_of_boolean_t B_FALSE)"
    using v by blast
  then have "truth_value 2"
    by (simp add: int_of_boolean_t_def)
  then show ?thesis
    using n i t by simp
qed

text \<open>
  Claim C4, as it is written, fails on the type: an object of type \<open>boolean_t\<close> also
  holds 2, which is neither enumeration constant and counts as true as \<open>B_TRUE\<close> does.
  The values of the type are more than two, and reading them as truth values is not
  one-to-one.
\<close>

theorem boolean_t_third_value:
  "boolean_t_holds 2
   \<and> 2 \<noteq> int_of_boolean_t B_FALSE
   \<and> 2 \<noteq> int_of_boolean_t B_TRUE
   \<and> truth_value 2 = truth_value (int_of_boolean_t B_TRUE)
   \<and> \<not> inj_on truth_value {v. boolean_t_holds v}"
proof -
  have i: "int_of_boolean_t B_FALSE = 0" "int_of_boolean_t B_TRUE = 1"
    by (simp_all add: int_of_boolean_t_def)
  have "\<not> inj_on truth_value {v. boolean_t_holds v}"
  proof
    assume a: "inj_on truth_value {v. boolean_t_holds v}"
    have "(1::int) \<in> {v. boolean_t_holds v}" and "(2::int) \<in> {v. boolean_t_holds v}"
      by (simp_all add: boolean_t_holds_def)
    moreover have "truth_value 1 = truth_value 2"
      by (simp add: truth_value_def)
    ultimately have "(1::int) = 2"
      using a by (blast dest: inj_onD)
    then show False
      by simp
  qed
  then show ?thesis
    by (simp add: i boolean_t_holds_def truth_value_def)
qed

text \<open>
  Claim C5. In a translation unit that has not included the header before, after the
  inclusion \<^verbatim>\<open>MILLISEC\<close> stands for 1000.
\<close>

theorem millisec_value:
  assumes "macros s ''COMPAT_H'' = None"
  shows "macro_value (compat_h s) ''MILLISEC'' = Some 1000"
  using assms by (rule macro_values_after_include)

theorem millisec_value_witness:
  "macros tu_library ''COMPAT_H'' = None
   \<and> macro_value (compat_h tu_library) ''MILLISEC'' = Some 1000"
proof -
  have g: "macros tu_library ''COMPAT_H'' = None"
    by (simp add: tu_library_def)
  show ?thesis
    using g millisec_value [OF g] by simp
qed

text \<open>
  Claim C6. In a translation unit that has not included the header before, after the
  inclusion \<^verbatim>\<open>PATH_MAX\<close> stands for 1024, also where a system header had given it
  another value.
\<close>

theorem path_max_value:
  assumes "macros s ''COMPAT_H'' = None"
  shows "macro_value (compat_h s) ''PATH_MAX'' = Some 1024"
  using assms by (rule macro_values_after_include)

theorem path_max_value_witness:
  "macros tu_system ''COMPAT_H'' = None
   \<and> macro_value tu_system ''PATH_MAX'' = Some 4096
   \<and> macro_value (compat_h tu_system) ''PATH_MAX'' = Some 1024"
proof -
  have g: "macros tu_system ''COMPAT_H'' = None"
    by (simp add: tu_system_def)
  have b: "macro_value tu_system ''PATH_MAX'' = Some 4096"
    by (simp add: tu_system_def macro_value_def expand_object_def integer_constant_def
          digit_of_def)
  show ?thesis
    using g b path_max_value [OF g] by simp
qed




text \<open>
  Claim C8. Including the header two times or more leaves the translation unit in the
  state one inclusion leaves it in: the same macros, the \<^verbatim>\<open>typedef\<close> passed on once,
  and no redefinition recorded beyond those of the first inclusion.
\<close>

theorem include_idempotent:
  "(compat_h ^^ Suc (Suc n)) s = compat_h s"
proof (induction n)
  case 0
  show ?case
    by (simp add: compat_h_twice)
next
  case (Suc n)
  have "(compat_h ^^ Suc (Suc (Suc n))) s = compat_h ((compat_h ^^ Suc (Suc n)) s)"
    by simp
  also have "\<dots> = compat_h (compat_h s)"
    using Suc by simp
  finally show ?case
    by (simp add: compat_h_twice)
qed

theorem include_idempotent_witness:
  "text_lines ((compat_h ^^ Suc (Suc (Suc 0))) tu_system) = [boolean_t_typedef]
   \<and> redefined ((compat_h ^^ Suc (Suc (Suc 0))) tu_system) = [''PATH_MAX'']
   \<and> macro_value ((compat_h ^^ Suc (Suc (Suc 0))) tu_system) ''EXIT_USAGE'' = Some 2"
proof -
  have g: "macros tu_system ''COMPAT_H'' = None"
    by (simp add: tu_system_def)
  have r: "redefined (compat_h tu_system) = [''PATH_MAX'']"
    by (simp add: compat_h_def cpp_ifndef_def block_def cpp_define_def text_line_def
          tu_system_def)
  have t: "text_lines (compat_h tu_system) = [boolean_t_typedef]"
    using compat_h_text_lines [OF g] by (simp add: tu_system_def)
  show ?thesis
    using include_idempotent [of "Suc 0" tu_system] r t macro_values_after_include(5) [OF g]
    by simp
qed

text \<open>
  Claim C9. In the order of the enumeration \<open>B_FALSE\<close> has the value 0 and \<open>B_TRUE\<close> the
  value 1; \<open>B_FALSE\<close> is the one value of the type that counts as false, and \<open>B_TRUE\<close>
  counts as true.
\<close>

theorem boolean_t_values:
  "int_of_boolean_t B_FALSE = 0
   \<and> int_of_boolean_t B_TRUE = 1
   \<and> (\<forall>b. (\<not> truth_value (int_of_boolean_t b)) = (b = B_FALSE))
   \<and> truth_value (int_of_boolean_t B_TRUE)"
proof -
  have "(\<not> truth_value (int_of_boolean_t b)) = (b = B_FALSE)" for b
    by (cases b) (simp_all add: int_of_boolean_t_def truth_value_def)
  then show ?thesis
    by (simp add: int_of_boolean_t_def truth_value_def)
qed

theorem boolean_t_values_witness:
  "int_of_boolean_t B_TRUE = 1 \<and> \<not> truth_value (int_of_boolean_t B_FALSE)"
proof -
  have "(\<not> truth_value (int_of_boolean_t B_FALSE)) = (B_FALSE = B_FALSE)"
    using boolean_t_values by blast
  moreover have "int_of_boolean_t B_TRUE = 1"
    using boolean_t_values by blast
  ultimately show ?thesis
    by simp
qed

text \<open>
  Claim C10. After the inclusion the three exit codes are three different numbers, and
  \<^verbatim>\<open>EXIT_SUCCESS\<close> is the only one of them that is 0.
\<close>

theorem exit_status_distinct:
  assumes "macros s ''COMPAT_H'' = None"
  shows "\<exists>ok failure usage.
           macro_value (compat_h s) ''EXIT_SUCCESS'' = Some ok
         \<and> macro_value (compat_h s) ''EXIT_FAILURE'' = Some failure
         \<and> macro_value (compat_h s) ''EXIT_USAGE'' = Some usage
         \<and> ok \<noteq> failure \<and> ok \<noteq> usage \<and> failure \<noteq> usage
         \<and> ok = 0 \<and> failure \<noteq> 0 \<and> usage \<noteq> 0"
  using assms by (simp add: macro_values_after_include)

theorem exit_status_distinct_witness:
  "macros tu_system ''COMPAT_H'' = None
   \<and> macro_value (compat_h tu_system) ''EXIT_SUCCESS'' \<noteq> macro_value (compat_h tu_system) ''EXIT_FAILURE''
   \<and> macro_value (compat_h tu_system) ''EXIT_SUCCESS'' \<noteq> macro_value (compat_h tu_system) ''EXIT_USAGE''
   \<and> macro_value (compat_h tu_system) ''EXIT_FAILURE'' \<noteq> macro_value (compat_h tu_system) ''EXIT_USAGE''"
proof -
  have g: "macros tu_system ''COMPAT_H'' = None"
    by (simp add: tu_system_def)
  show ?thesis
    using g exit_status_distinct [OF g] by auto
qed

end
